theory Spec2Isabelle
  imports Main
begin

section \<open>Values and identities\<close>

text \<open>
  The admin console is written in TypeScript. The values that flow through the filter
  objects are JavaScript values: \<open>undefined\<close>, numbers (the ids, page numbers and
  durations are integers, and \<open>parseInt\<close> may return \<open>NaN\<close>) and strings.
\<close>

datatype jsval = Undefined | Num int | NaN | Str string

text \<open>JavaScript truthiness, as used by \<open>||\<close>, \<open>&&\<close>, \<open>!\<close> and \<open>if\<close>.\<close>

fun truthy :: "jsval \<Rightarrow> bool" where
  "truthy Undefined = False"
| "truthy (Num n) = (n \<noteq> 0)"
| "truthy NaN = False"
| "truthy (Str s) = (s \<noteq> [])"

text \<open>\<open>a || b\<close>\<close>

definition jsOr :: "jsval \<Rightarrow> jsval \<Rightarrow> jsval" where
  "jsOr a b = (if truthy a then a else b)"

text \<open>
  \<open>v + d\<close> and \<open>v - d\<close> for the page counter. \<open>page\<close> has type \<open>number\<close>; on
  \<open>undefined\<close> and \<open>NaN\<close> the arithmetic gives \<open>NaN\<close>. A string is excluded by the
  type of the field and is mapped to \<open>NaN\<close> as well.
\<close>

fun jsPlus :: "jsval \<Rightarrow> int \<Rightarrow> jsval" where
  "jsPlus (Num n) d = Num (n + d)"
| "jsPlus _ d = NaN"

text \<open>\<open>AdminRole\<close> and the fields of \<open>Admin\<close> that the role logic reads (types file,
  and \<open>assigned_user_ids\<close> as read by the call-log page). \<open>admin_id\<close> is the field \<open>id\<close>.\<close>

datatype AdminRole = super_admin | manager | trainee

record Admin =
  admin_id :: int
  admin_role :: AdminRole
  branch_id :: "int option"
  assigned_user_ids :: "int list option"

text \<open>\<open>admin?.admin_role === r\<close>, with \<open>admin\<close> possibly \<open>null\<close>.\<close>

definition roleIs :: "Admin option \<Rightarrow> AdminRole \<Rightarrow> bool" where
  "roleIs admin r = (case admin of None \<Rightarrow> False | Some a \<Rightarrow> admin_role a = r)"

section \<open>Sidebar and routes\<close>

record NavItem =
  to :: string
  label :: string
  allowedRoles :: "AdminRole list option"

definition allNavItems :: "NavItem list" where
  "allNavItems =
    [\<lparr>to = ''/dashboard'', label = ''Dashboard'', allowedRoles = None\<rparr>,
     \<lparr>to = ''/call-logs'', label = ''Call Logs'', allowedRoles = None\<rparr>,
     \<lparr>to = ''/devices'', label = ''Devices'', allowedRoles = Some [super_admin, manager]\<rparr>]"

definition allAdminNavItems :: "NavItem list" where
  "allAdminNavItems =
    [\<lparr>to = ''/branches'', label = ''Branches'', allowedRoles = Some [super_admin]\<rparr>,
     \<lparr>to = ''/users'', label = ''App Users'', allowedRoles = None\<rparr>,
     \<lparr>to = ''/admins'', label = ''Admins'', allowedRoles = Some [super_admin]\<rparr>,
     \<lparr>to = ''/login-activities'', label = ''Login Activity'',
       allowedRoles = Some [super_admin, manager]\<rparr>]"

text \<open>
  The callback of both \<open>filter\<close> calls of the sidebar:
  \<^verbatim>\<open>if (item.allowedRoles && admin?.admin_role) return item.allowedRoles.includes(admin.admin_role);
  return true; // Show items without role restrictions\<close>
\<close>

definition navItemShown :: "Admin option \<Rightarrow> NavItem \<Rightarrow> bool" where
  "navItemShown admin item =
    (case allowedRoles item of
       None \<Rightarrow> True
     | Some roles \<Rightarrow>
        (case admin of
           None \<Rightarrow> True
         | Some a \<Rightarrow> admin_role a \<in> set roles))"

definition navItems :: "Admin option \<Rightarrow> NavItem list" where
  "navItems admin = filter (navItemShown admin) allNavItems"

definition adminNavItems :: "Admin option \<Rightarrow> NavItem list" where
  "adminNavItems admin = filter (navItemShown admin) allAdminNavItems"

text \<open>\<open>ProtectedRoute\<close> of the router: only the login state is checked.\<close>

datatype RouteResult = Navigate string | Render string

definition ProtectedRoute :: "bool \<Rightarrow> string \<Rightarrow> RouteResult" where
  "ProtectedRoute isAuthenticated children =
    (if \<not> isAuthenticated then Navigate ''/login'' else Render children)"

text \<open>The element of the route \<open>/users\<close>.\<close>

definition usersRoute :: "bool \<Rightarrow> RouteResult" where
  "usersRoute isAuthenticated = ProtectedRoute isAuthenticated ''Users''"

text \<open>The action flags the pages derive from the role: \<open>canEdit\<close> of the users page
  (\<open>// Only super_admin can create/edit/delete users\<close>), \<open>canEdit\<close> of the admins page
  and \<open>canManageCallLogs\<close> of the call-log page.\<close>

definition usersCanEdit :: "Admin option \<Rightarrow> bool" where
  "usersCanEdit admin = roleIs admin super_admin"

text \<open>\<open>canEdit\<close> of the earlier version of the users page, which the sources also hold.\<close>

definition usersCanEditEarlier :: "Admin option \<Rightarrow> bool" where
  "usersCanEditEarlier admin = (roleIs admin super_admin \<or> roleIs admin manager)"

definition adminsCanEdit :: "Admin option \<Rightarrow> bool" where
  "adminsCanEdit admin = roleIs admin super_admin"

definition canManageCallLogs :: "Admin option \<Rightarrow> bool" where
  "canManageCallLogs admin = roleIs admin super_admin"

text \<open>
  The Excel and PDF buttons of the call-log page stand in the search form under no
  condition on the admin; their only attribute that varies is
  \<open>disabled={exporting !== null}\<close>.
\<close>

definition exportButtonsShown :: "Admin option \<Rightarrow> bool" where
  "exportButtonsShown admin = True"

section \<open>Deleting an admin\<close>

datatype DeleteOutcome = ToastError string | DeleteMutate int | NoAction

text \<open>\<open>handleDelete\<close> of the admins page; \<open>confirmed\<close> is the answer of \<open>window.confirm\<close>.\<close>

definition handleDelete :: "Admin option \<Rightarrow> int \<Rightarrow> bool \<Rightarrow> DeleteOutcome" where
  "handleDelete admin target confirmed =
    (if map_option admin_id admin = Some target
     then ToastError ''You cannot delete your own account''
     else if confirmed then DeleteMutate target else NoAction)"

text \<open>The guard around the edit and delete buttons of a card:
  \<open>canEdit && adminItem.id !== admin?.id\<close>.\<close>

definition deleteButtonShown :: "Admin option \<Rightarrow> int \<Rightarrow> bool" where
  "deleteButtonShown admin adminItemId =
    (adminsCanEdit admin \<and> Some adminItemId \<noteq> map_option admin_id admin)"

section \<open>The call-log page: filter state\<close>

text \<open>
  The keys of \<open>CallLogFilters\<close>: \<open>page, per_page, call_type, date_from, date_to, date,
  time_from, time_to, duration_min, duration_max, user_id, branch_id, number, search,
  sort_by, sort_order\<close>. A filter object is a map from keys to values: a key can be
  absent, or present with the value \<open>undefined\<close>, and object spread copies both kinds.
\<close>

datatype FilterKey =
  Page | PerPage | CallType | DateFrom | DateTo | Date | TimeFrom | TimeTo
  | DurationMin | DurationMax | UserId | BranchId | Number | Search | SortBy | SortOrder

type_synonym CallLogFilters = "FilterKey \<rightharpoonup> jsval"

text \<open>Reading a property: an absent key reads as \<open>undefined\<close>.\<close>

definition getProp :: "CallLogFilters \<Rightarrow> FilterKey \<Rightarrow> jsval" where
  "getProp f k = (case f k of None \<Rightarrow> Undefined | Some v \<Rightarrow> v)"

text \<open>The three pieces of React state the handlers read and write.\<close>

record PageState =
  filters :: CallLogFilters
  pendingFilters :: CallLogFilters
  search :: string

text \<open>\<open>ids[0]\<close>: \<open>undefined\<close> on an empty array.\<close>

definition firstId :: "int list \<Rightarrow> jsval" where
  "firstId ids = (case ids of [] \<Rightarrow> Undefined | x # _ \<Rightarrow> Num x)"

text \<open>\<open>ids.includes(v)\<close> for an array of numbers.\<close>

definition idsInclude :: "int list \<Rightarrow> jsval \<Rightarrow> bool" where
  "idsInclude ids v = (case v of Num n \<Rightarrow> n \<in> set ids | _ \<Rightarrow> False)"

definition getInitialFilters :: "Admin option \<Rightarrow> CallLogFilters" where
  "getInitialFilters admin =
    (let baseFilters = [Page \<mapsto> Num 1, PerPage \<mapsto> Num 20];
         baseFilters =
           (case admin of
              None \<Rightarrow> baseFilters
            | Some a \<Rightarrow>
               (case assigned_user_ids a of
                  None \<Rightarrow> baseFilters
                | Some ids \<Rightarrow>
                   if admin_role a = trainee \<and> length ids > 0
                   then baseFilters(UserId \<mapsto> firstId ids) else baseFilters));
         baseFilters =
           (case admin of
              None \<Rightarrow> baseFilters
            | Some a \<Rightarrow>
               (case branch_id a of
                  None \<Rightarrow> baseFilters
                | Some b \<Rightarrow>
                   if admin_role a = manager \<and> b \<noteq> 0
                   then baseFilters(BranchId \<mapsto> Num b) else baseFilters))
     in baseFilters)"

definition initialState :: "Admin option \<Rightarrow> PageState" where
  "initialState admin =
    \<lparr>filters = getInitialFilters admin, pendingFilters = Map.empty, search = ''''\<rparr>"

definition availableUserIds :: "Admin option \<Rightarrow> int list" where
  "availableUserIds admin =
    (case admin of
       None \<Rightarrow> []
     | Some a \<Rightarrow>
        if admin_role a = super_admin then []
        else (case assigned_user_ids a of
                None \<Rightarrow> []
              | Some ids \<Rightarrow> if admin_role a = trainee then ids else []))"

text \<open>\<open>setSearch\<close>, bound to the search box.\<close>

definition setSearch :: "string \<Rightarrow> PageState \<Rightarrow> PageState" where
  "setSearch text s = s\<lparr>search := text\<rparr>"

definition handleSearch :: "PageState \<Rightarrow> PageState" where
  "handleSearch s = s\<lparr>filters := (filters s)(Search \<mapsto> Str (search s), Page \<mapsto> Num 1)\<rparr>"

text \<open>\<open>setPendingFilters({ ...pendingFilters, [key]: value || undefined })\<close>\<close>

definition handleFilterChange :: "FilterKey \<Rightarrow> jsval \<Rightarrow> PageState \<Rightarrow> PageState" where
  "handleFilterChange key v s =
    s\<lparr>pendingFilters := (pendingFilters s)(key \<mapsto> jsOr v Undefined)\<rparr>"

text \<open>
  The \<open>onChange\<close> of the numeric inputs and selects:
  \<^verbatim>\<open>handleFilterChange(key, e.target.value ? parseInt(e.target.value) : undefined)\<close>.
  \<open>parsed\<close> is what the built-in \<open>parseInt\<close> returns on the raw text.
\<close>

definition numericChange :: "FilterKey \<Rightarrow> string \<Rightarrow> jsval \<Rightarrow> PageState \<Rightarrow> PageState" where
  "numericChange key raw parsed s =
    handleFilterChange key (if raw \<noteq> [] then parsed else Undefined) s"

text \<open>
  \<open>applyFilters\<close>. The first component of the result is the message passed to
  \<open>alert\<close> when the handler gives up, the second the state afterwards. The handler
  assigns to \<open>pendingFilters.user_id\<close> and \<open>pendingFilters.branch_id\<close> in place, so the
  pending object changes together with the applied one.
\<close>

definition applyFilters :: "Admin option \<Rightarrow> PageState \<Rightarrow> string option \<times> PageState" where
  "applyFilters admin s =
    (let pending = pendingFilters s in
     if (truthy (getProp pending TimeFrom) \<or> truthy (getProp pending TimeTo))
        \<and> \<not> truthy (getProp pending DateFrom) \<and> \<not> truthy (getProp pending DateTo)
     then (Some ''Please select a date when using time filters'', s)
     else
       let userId = getProp pending UserId;
           enforce = (roleIs admin trainee \<and> length (availableUserIds admin) > 0)
       in
       if enforce \<and> truthy userId \<and> \<not> idsInclude (availableUserIds admin) userId
       then (Some ''You can only view call logs for your assigned users'', s)
       else
         let pending =
               (if enforce \<and> \<not> truthy userId
                then pending(UserId \<mapsto> firstId (availableUserIds admin)) else pending);
             pending =
               (case admin of
                  None \<Rightarrow> pending
                | Some a \<Rightarrow>
                   (case branch_id a of
                      None \<Rightarrow> pending
                    | Some b \<Rightarrow>
                       if admin_role a = manager \<and> b \<noteq> 0
                       then pending(BranchId \<mapsto> Num b) else pending))
         in (None, s\<lparr>filters := (filters s ++ pending)(Page \<mapsto> Num 1),
                      pendingFilters := pending\<rparr>))"

definition clearFilters :: "Admin option \<Rightarrow> PageState \<Rightarrow> PageState" where
  "clearFilters admin s =
    \<lparr>filters = getInitialFilters admin, pendingFilters = Map.empty, search = ''''\<rparr>"

text \<open>\<open>handleSort\<close>; the column is one of \<open>call_type\<close>, \<open>call_duration\<close>,
  \<open>call_timestamp\<close>.\<close>

definition handleSort :: "string \<Rightarrow> PageState \<Rightarrow> PageState" where
  "handleSort column s =
    (let newSortOrder =
           (if getProp (filters s) SortBy = Str column
            then (if getProp (filters s) SortOrder = Str ''asc'' then ''desc'' else ''asc'')
            else ''asc'')
     in s\<lparr>filters := (filters s)(SortBy \<mapsto> Str column, SortOrder \<mapsto> Str newSortOrder,
                                   Page \<mapsto> Num 1)\<rparr>)"

subsection \<open>The pager\<close>

text \<open>What the pager reads of the fetched page: the number of rows and \<open>last_page\<close>.\<close>

record CallLogsData =
  call_logs_length :: nat
  last_page :: int

text \<open>The pager is rendered when the page has rows and \<open>last_page > 1\<close>.\<close>

definition pagerRendered :: "CallLogsData \<Rightarrow> bool" where
  "pagerRendered d = (call_logs_length d \<noteq> 0 \<and> last_page d > 1)"

text \<open>The \<open>disabled\<close> attribute of the two buttons: \<open>filters.page === 1\<close> and
  \<open>filters.page === data.pagination.last_page\<close>.\<close>

definition previousDisabled :: "PageState \<Rightarrow> bool" where
  "previousDisabled s = (getProp (filters s) Page = Num 1)"

definition nextDisabled :: "CallLogsData \<Rightarrow> PageState \<Rightarrow> bool" where
  "nextDisabled d s = (getProp (filters s) Page = Num (last_page d))"

text \<open>
  A request for the previous page. \<open>None\<close>: the request is refused, the button is
  not rendered or is disabled and no handler runs. Otherwise the handler runs:
  \<open>setFilters({ ...filters, page: (filters.page || 1) - 1 })\<close>.
\<close>

definition previousRequest :: "CallLogsData \<Rightarrow> PageState \<Rightarrow> PageState option" where
  "previousRequest d s =
    (if pagerRendered d \<and> \<not> previousDisabled s
     then Some (s\<lparr>filters :=
                  (filters s)(Page \<mapsto> jsPlus (jsOr (getProp (filters s) Page) (Num 1)) (- 1))\<rparr>)
     else None)"

text \<open>A request for the next page:
  \<open>setFilters({ ...filters, page: (filters.page || 1) + 1 })\<close>.\<close>

definition nextRequest :: "CallLogsData \<Rightarrow> PageState \<Rightarrow> PageState option" where
  "nextRequest d s =
    (if pagerRendered d \<and> \<not> nextDisabled d s
     then Some (s\<lparr>filters :=
                  (filters s)(Page \<mapsto> jsPlus (jsOr (getProp (filters s) Page) (Num 1)) 1)\<rparr>)
     else None)"

text \<open>The state after a click: a refused request leaves it as it is.\<close>

definition previousClick :: "CallLogsData \<Rightarrow> PageState \<Rightarrow> PageState" where
  "previousClick d s = (case previousRequest d s of None \<Rightarrow> s | Some s' \<Rightarrow> s')"

definition nextClick :: "CallLogsData \<Rightarrow> PageState \<Rightarrow> PageState" where
  "nextClick d s = (case nextRequest d s of None \<Rightarrow> s | Some s' \<Rightarrow> s')"

subsection \<open>Presets from the URL\<close>

text \<open>
  A local calendar date as the \<open>Date\<close> getters report it: \<open>getFullYear()\<close>,
  \<open>getMonth()\<close> (from 0) and \<open>getDate()\<close>.
\<close>

record JSDate =
  fullYear :: nat
  monthIndex :: nat
  dayOfMonth :: nat

text \<open>
  What \<open>getDateRangeForPeriod\<close> takes from the clock: \<open>today\<close>, and \<open>weekStart\<close>,
  the date that the built-in \<open>setDate(today.getDate() - today.getDay())\<close> produces.
\<close>

record Clock =
  today :: JSDate
  weekStart :: JSDate

text \<open>\<open>String(n)\<close> for a natural number.\<close>

fun String_nat :: "nat \<Rightarrow> string" where
  "String_nat n =
    (if n < 10 then [''0123456789'' ! n]
     else String_nat (n div 10) @ [''0123456789'' ! (n mod 10)])"

declare String_nat.simps [simp del]

text \<open>\<open>s.padStart(2, '0')\<close>\<close>

definition padStart2 :: "string \<Rightarrow> string" where
  "padStart2 s = replicate (2 - length s) (CHR ''0'') @ s"

definition formatDate :: "JSDate \<Rightarrow> string" where
  "formatDate date =
    String_nat (fullYear date) @ ''-'' @ padStart2 (String_nat (monthIndex date + 1))
      @ ''-'' @ padStart2 (String_nat (dayOfMonth date))"

definition getDateRangeForPeriod :: "Clock \<Rightarrow> string \<Rightarrow> CallLogFilters" where
  "getDateRangeForPeriod clock period =
    (if period = ''daily'' then
       [DateFrom \<mapsto> Str (formatDate (today clock)), DateTo \<mapsto> Str (formatDate (today clock))]
     else if period = ''weekly'' then
       [DateFrom \<mapsto> Str (formatDate (weekStart clock)),
        DateTo \<mapsto> Str (formatDate (today clock))]
     else if period = ''monthly'' then
       [DateFrom \<mapsto> Str (formatDate ((today clock)\<lparr>dayOfMonth := 1\<rparr>)),
        DateTo \<mapsto> Str (formatDate (today clock))]
     else Map.empty)"

text \<open>\<open>searchParams.get(k)\<close> is a string or \<open>null\<close>; this is its truthiness.\<close>

definition present :: "string option \<Rightarrow> bool" where
  "present p = (case p of None \<Rightarrow> False | Some v \<Rightarrow> v \<noteq> [])"

text \<open>
  The effect that runs on mount and whenever the URL parameters change, with
  \<open>callType = searchParams.get('call_type')\<close> and \<open>period = searchParams.get('period')\<close>.
\<close>

definition urlPresetEffect ::
  "Admin option \<Rightarrow> Clock \<Rightarrow> string option \<Rightarrow> string option \<Rightarrow> PageState \<Rightarrow> PageState" where
  "urlPresetEffect admin clock callType period s =
    (if present callType \<or> present period then
       let newFilters = getInitialFilters admin;
           newFilters =
             (case callType of
                None \<Rightarrow> newFilters
              | Some c \<Rightarrow> if c \<noteq> [] then newFilters(CallType \<mapsto> Str c) else newFilters);
           newFilters =
             (case period of
                None \<Rightarrow> newFilters
              | Some p \<Rightarrow>
                 if p \<noteq> [] then
                   let dateRange = getDateRangeForPeriod clock p
                   in newFilters(DateFrom \<mapsto> getProp dateRange DateFrom,
                                 DateTo \<mapsto> getProp dateRange DateTo)
                 else newFilters)
       in s\<lparr>filters := newFilters,
             pendingFilters :=
               [CallType \<mapsto> getProp newFilters CallType,
                DateFrom \<mapsto> getProp newFilters DateFrom,
                DateTo \<mapsto> getProp newFilters DateTo]\<rparr>
     else s)"

text \<open>
  The partial filter set a URL carries, read off the assignments of the effect: the
  call type when given, both date keys when a period is given.
\<close>

definition presetFilters :: "Clock \<Rightarrow> string option \<Rightarrow> string option \<Rightarrow> CallLogFilters" where
  "presetFilters clock callType period =
    (case callType of
       None \<Rightarrow> Map.empty
     | Some c \<Rightarrow> if c \<noteq> [] then [CallType \<mapsto> Str c] else Map.empty)
    ++ (case period of
          None \<Rightarrow> Map.empty
        | Some p \<Rightarrow>
           if p \<noteq> [] then
             [DateFrom \<mapsto> getProp (getDateRangeForPeriod clock p) DateFrom,
              DateTo \<mapsto> getProp (getDateRangeForPeriod clock p) DateTo]
           else Map.empty)"

subsection \<open>Runs of the page\<close>

text \<open>What can happen to the page, with the inputs that come from outside.\<close>

datatype Event =
  FilterChange FilterKey jsval
  | ApplyFilters
  | ClearFilters
  | SetSearch string
  | SubmitSearch
  | Sort string
  | Previous CallLogsData
  | Next CallLogsData
  | UrlParams Clock "string option" "string option"

fun step :: "Admin option \<Rightarrow> PageState \<Rightarrow> Event \<Rightarrow> PageState" where
  "step admin s (FilterChange key v) = handleFilterChange key v s"
| "step admin s ApplyFilters = snd (applyFilters admin s)"
| "step admin s ClearFilters = clearFilters admin s"
| "step admin s (SetSearch text) = setSearch text s"
| "step admin s SubmitSearch = handleSearch s"
| "step admin s (Sort column) = handleSort column s"
| "step admin s (Previous d) = previousClick d s"
| "step admin s (Next d) = nextClick d s"
| "step admin s (UrlParams clock callType period) = urlPresetEffect admin clock callType period s"

definition run :: "Admin option \<Rightarrow> Event list \<Rightarrow> PageState" where
  "run admin evs = foldl (step admin) (initialState admin) evs"

section \<open>The call-log page: recordings\<close>

definition shouldShowRecordings :: "string \<Rightarrow> int \<Rightarrow> int \<Rightarrow> bool" where
  "shouldShowRecordings callType callDuration recordingsCount =
    (if callType = ''missed'' \<or> callType = ''rejected'' \<or> callDuration = 0 then False
     else recordingsCount > 0)"

text \<open>The fields of a call log that the recording controls read; \<open>recordings\<close> is the
  number of recordings of the opened log, when the list is there.\<close>

record CallLog =
  call_type :: string
  call_duration :: int
  recordings_count :: "int option"
  recordings :: "nat option"

text \<open>What the recording cell of a table row shows.\<close>

record RecordingCell =
  playButton :: bool
  downloadButton :: bool
  noRecordingText :: bool

definition recordingCell :: "Admin option \<Rightarrow> CallLog \<Rightarrow> RecordingCell" where
  "recordingCell admin log =
    (if shouldShowRecordings (call_type log) (call_duration log)
          (case recordings_count log of None \<Rightarrow> 0 | Some c \<Rightarrow> c)
     then \<lparr>playButton = True, downloadButton = canManageCallLogs admin, noRecordingText = False\<rparr>
     else \<lparr>playButton = False, downloadButton = False, noRecordingText = True\<rparr>)"

text \<open>What the detail dialog shows of the recordings: the players, whether each player
  has its download button, and the empty state.\<close>

record RecordingSection =
  players :: bool
  playerDownload :: bool
  emptyState :: bool

definition recordingSection :: "Admin option \<Rightarrow> CallLog \<Rightarrow> RecordingSection" where
  "recordingSection admin selectedLog =
    (let n = (case recordings selectedLog of None \<Rightarrow> 0 | Some k \<Rightarrow> int k);
         shown = shouldShowRecordings (call_type selectedLog) (call_duration selectedLog) n;
         listed = (shown \<and> recordings selectedLog \<noteq> None \<and> n > 0)
     in \<lparr>players = listed,
         playerDownload = (listed \<and> canManageCallLogs admin),
         emptyState = (\<not> shown)\<rparr>)"

section \<open>Example inputs\<close>

definition exSuperAdmin :: Admin where
  "exSuperAdmin =
    \<lparr>admin_id = 1, admin_role = super_admin, branch_id = None, assigned_user_ids = None\<rparr>"

definition exManager :: Admin where
  "exManager =
    \<lparr>admin_id = 2, admin_role = manager, branch_id = Some 7, assigned_user_ids = None\<rparr>"

definition exManagerNoBranch :: Admin where
  "exManagerNoBranch =
    \<lparr>admin_id = 3, admin_role = manager, branch_id = None, assigned_user_ids = None\<rparr>"

definition exTrainee :: Admin where
  "exTrainee =
    \<lparr>admin_id = 4, admin_role = trainee, branch_id = None, assigned_user_ids = Some [42, 43]\<rparr>"

definition exTraineeNoUsers :: Admin where
  "exTraineeNoUsers =
    \<lparr>admin_id = 5, admin_role = trainee, branch_id = None, assigned_user_ids = Some []\<rparr>"

definition exClock :: Clock where
  "exClock =
    \<lparr>today = \<lparr>fullYear = 2024, monthIndex = 2, dayOfMonth = 6\<rparr>,
     weekStart = \<lparr>fullYear = 2024, monthIndex = 2, dayOfMonth = 3\<rparr>\<rparr>"

definition exClockNextDay :: Clock where
  "exClockNextDay =
    \<lparr>today = \<lparr>fullYear = 2024, monthIndex = 2, dayOfMonth = 7\<rparr>,
     weekStart = \<lparr>fullYear = 2024, monthIndex = 2, dayOfMonth = 3\<rparr>\<rparr>"

definition exData :: "int \<Rightarrow> CallLogsData" where
  "exData n = \<lparr>call_logs_length = 20, last_page = n\<rparr>"

definition exLog :: CallLog where
  "exLog = \<lparr>call_type = ''incoming'', call_duration = 30, recordings_count = Some 1,
            recordings = Some 1\<rparr>"

section \<open>Lemmas about the handlers\<close>

text \<open>
  What an accepted \<open>applyFilters\<close> leaves behind, and the two facts that every
  handler preserves: the branch of a manager and the assigned user of a trainee.
\<close>

lemmas page_defs = handleFilterChange_def applyFilters_def clearFilters_def setSearch_def
  handleSearch_def handleSort_def previousClick_def previousRequest_def previousDisabled_def nextClick_def nextRequest_def nextDisabled_def urlPresetEffect_def

lemma getInitialFilters_manager:
  "admin_role a = manager \<Longrightarrow> branch_id a = Some b \<Longrightarrow> b \<noteq> 0 \<Longrightarrow>
   getInitialFilters (Some a) BranchId = Some (Num b)"
  by (simp add: getInitialFilters_def Let_def split: option.splits)

lemma getInitialFilters_trainee:
  "admin_role a = trainee \<Longrightarrow> assigned_user_ids a = Some ids \<Longrightarrow> ids \<noteq> [] \<Longrightarrow>
   getInitialFilters (Some a) UserId = Some (Num (hd ids))"
  by (cases ids) (simp_all add: getInitialFilters_def firstId_def Let_def split: option.splits)

lemma step_keeps_branch:
  assumes "admin_role a = manager" "branch_id a = Some b" "b \<noteq> 0"
    and "filters s BranchId = Some (Num b)"
  shows "filters (step (Some a) s ev) BranchId = Some (Num b)"
proof (cases ev)
  case ApplyFilters
  then show ?thesis using assms by (simp add: applyFilters_def Let_def)
next
  case ClearFilters
  then show ?thesis using assms by (simp add: clearFilters_def getInitialFilters_manager)
next
  case (UrlParams clock callType period)
  then show ?thesis using assms
    by (simp add: urlPresetEffect_def Let_def getInitialFilters_manager split: option.splits)
qed (use assms in \<open>simp_all add: page_defs Let_def\<close>)

lemma run_keeps_branch:
  assumes "admin_role a = manager" "branch_id a = Some b" "b \<noteq> 0"
    and "filters s BranchId = Some (Num b)"
  shows "filters (foldl (step (Some a)) s evs) BranchId = Some (Num b)"
  using assms(4)
proof (induction evs arbitrary: s)
  case Nil
  then show ?case by simp
next
  case (Cons ev evs)
  then show ?case using step_keeps_branch [OF assms(1-3)] by simp
qed

lemma step_keeps_user:
  assumes "admin_role a = trainee" "assigned_user_ids a = Some ids" "ids \<noteq> []"
    and "\<exists>u\<in>set ids. filters s UserId = Some (Num u)"
  shows "\<exists>u\<in>set ids. filters (step (Some a) s ev) UserId = Some (Num u)"
proof (cases ev)
  case ApplyFilters
  obtain x xs where ids: "ids = x # xs" using assms(3) by (cases ids) auto
  have av: "availableUserIds (Some a) = ids" using assms by (simp add: availableUserIds_def)
  show ?thesis
  proof (cases "fst (applyFilters (Some a) s)")
    case None
    then show ?thesis using assms ApplyFilters av ids
      by (auto simp: applyFilters_def Let_def roleIs_def idsInclude_def firstId_def getProp_def
          split: if_splits option.splits jsval.splits)
  next
    case (Some msg)
    then have "snd (applyFilters (Some a) s) = s"
      by (auto simp: applyFilters_def Let_def split: if_splits)
    then show ?thesis using assms ApplyFilters by simp
  qed
next
  case ClearFilters
  then show ?thesis using assms getInitialFilters_trainee [OF assms(1-3)]
    by (cases ids) (auto simp add: clearFilters_def)
next
  case (UrlParams clock callType period)
  then show ?thesis using assms getInitialFilters_trainee [OF assms(1-3)]
    by (cases ids) (auto simp add: urlPresetEffect_def Let_def split: option.splits)
qed (use assms in \<open>simp_all add: page_defs Let_def\<close>)

lemma run_keeps_user:
  assumes "admin_role a = trainee" "assigned_user_ids a = Some ids" "ids \<noteq> []"
    and "\<exists>u\<in>set ids. filters s UserId = Some (Num u)"
  shows "\<exists>u\<in>set ids. filters (foldl (step (Some a)) s evs) UserId = Some (Num u)"
  using assms(4)
proof (induction evs arbitrary: s)
  case Nil
  then show ?case by simp
next
  case (Cons ev evs)
  then show ?case using step_keeps_user [OF assms(1-3)] by simp
qed

lemma applyFilters_accepted:
  assumes "applyFilters admin s = (None, s')"
  shows "filters s' = (filters s ++ pendingFilters s')(Page \<mapsto> Num 1)"
    and "search s' = search s"
    and "k \<noteq> UserId \<Longrightarrow> k \<noteq> BranchId \<Longrightarrow> pendingFilters s' k = pendingFilters s k"
    and "roleIs admin super_admin \<Longrightarrow> pendingFilters s' = pendingFilters s"
proof -
  define p1 where "p1 =
    (if (roleIs admin trainee \<and> length (availableUserIds admin) > 0)
        \<and> \<not> truthy (getProp (pendingFilters s) UserId)
     then (pendingFilters s)(UserId \<mapsto> firstId (availableUserIds admin)) else pendingFilters s)"
  define p2 where "p2 =
    (case admin of
       None \<Rightarrow> p1
     | Some a \<Rightarrow>
        (case branch_id a of
           None \<Rightarrow> p1
         | Some b \<Rightarrow> if admin_role a = manager \<and> b \<noteq> 0 then p1(BranchId \<mapsto> Num b) else p1))"
  have s': "s' = s\<lparr>filters := (filters s ++ p2)(Page \<mapsto> Num 1), pendingFilters := p2\<rparr>"
    using assms unfolding applyFilters_def Let_def p1_def p2_def
    by (auto split: if_splits)
  show "filters s' = (filters s ++ pendingFilters s')(Page \<mapsto> Num 1)"
    by (simp add: s')
  show "search s' = search s"
    by (simp add: s')
  show "pendingFilters s' k = pendingFilters s k" if "k \<noteq> UserId" "k \<noteq> BranchId"
    using that by (simp add: s' p2_def p1_def split: option.splits)
  show "pendingFilters s' = pendingFilters s" if "roleIs admin super_admin"
    using that by (auto simp: s' p2_def p1_def roleIs_def split: option.splits)
qed

lemma applyFilters_default_user:
  assumes "admin_role a = trainee" "assigned_user_ids a = Some ids" "ids \<noteq> []"
    and "\<not> truthy (getProp (pendingFilters s) UserId)"
    and "fst (applyFilters (Some a) s) = None"
  shows "getProp (filters (snd (applyFilters (Some a) s))) UserId = Num (hd ids)"
proof -
  obtain x xs where ids: "ids = x # xs" using assms(3) by (cases ids) auto
  have av: "availableUserIds (Some a) = ids" using assms by (simp add: availableUserIds_def)
  show ?thesis using assms av ids
    by (auto simp: applyFilters_def Let_def roleIs_def firstId_def getProp_def
        split: if_splits option.splits)
qed





lemma urlPresetEffect_present:
  assumes "present callType \<or> present period"
  shows "urlPresetEffect admin clock callType period s =
      s\<lparr>filters := getInitialFilters admin ++ presetFilters clock callType period,
        pendingFilters :=
          [CallType \<mapsto> getProp (getInitialFilters admin ++ presetFilters clock callType period) CallType,
           DateFrom \<mapsto> getProp (getInitialFilters admin ++ presetFilters clock callType period) DateFrom,
           DateTo \<mapsto> getProp (getInitialFilters admin ++ presetFilters clock callType period) DateTo]\<rparr>"
  using assms
  by (auto simp: urlPresetEffect_def presetFilters_def present_def Let_def
      split: option.splits)

section \<open>Access policy\<close>

text \<open>
  Claim C1, as the code has it. The sidebar denies by list only: an item is hidden
  exactly when it carries a list of allowed roles and the role of the signed-in admin is
  known and not in that list. An item without a list (dashboard, call logs, app users)
  is shown to every role, and with no admin every item is shown.
\<close>

theorem nav_visibility:
  "(\<not> navItemShown admin item) =
     (\<exists>roles a. allowedRoles item = Some roles \<and> admin = Some a \<and> admin_role a \<notin> set roles)
   \<and> map to (navItems (Some a)) =
       (if admin_role a = trainee then [''/dashboard'', ''/call-logs'']
        else [''/dashboard'', ''/call-logs'', ''/devices''])
   \<and> map to (adminNavItems (Some a)) =
       (case admin_role a of
          super_admin \<Rightarrow> [''/branches'', ''/users'', ''/admins'', ''/login-activities'']
        | manager \<Rightarrow> [''/users'', ''/login-activities'']
        | trainee \<Rightarrow> [''/users''])
   \<and> navItems None = allNavItems
   \<and> adminNavItems None = allAdminNavItems"
proof -
  have shown: "(\<not> navItemShown admin item) =
     (\<exists>roles a. allowedRoles item = Some roles \<and> admin = Some a \<and> admin_role a \<notin> set roles)"
    by (auto simp: navItemShown_def split: option.splits)
  have tables: "map to (navItems (Some a)) =
       (if admin_role a = trainee then [''/dashboard'', ''/call-logs'']
        else [''/dashboard'', ''/call-logs'', ''/devices''])
   \<and> map to (adminNavItems (Some a)) =
       (case admin_role a of
          super_admin \<Rightarrow> [''/branches'', ''/users'', ''/admins'', ''/login-activities'']
        | manager \<Rightarrow> [''/users'', ''/login-activities'']
        | trainee \<Rightarrow> [''/users''])"
    by (cases "admin_role a")
      (simp_all add: navItemShown_def navItems_def adminNavItems_def allNavItems_def
        allAdminNavItems_def)
  have unknown: "navItems None = allNavItems \<and> adminNavItems None = allAdminNavItems"
    by (simp add: navItemShown_def navItems_def adminNavItems_def allNavItems_def
        allAdminNavItems_def)
  show ?thesis using shown tables unknown by blast
qed

text \<open>
  The statement of C1 at a manager: the devices item and the login activity item are
  shown, branches and admins are not.
\<close>

theorem nav_visibility_witness:
  "map to (navItems (Some exManager)) = [''/dashboard'', ''/call-logs'', ''/devices'']
   \<and> map to (adminNavItems (Some exManager)) = [''/users'', ''/login-activities'']
   \<and> \<not> navItemShown (Some exManager)
        \<lparr>to = ''/admins'', label = ''Admins'', allowedRoles = Some [super_admin]\<rparr>"
  using nav_visibility [of "Some exManager"
      "\<lparr>to = ''/admins'', label = ''Admins'', allowedRoles = Some [super_admin]\<rparr>" exManager]
  by (simp add: exManager_def)

text \<open>
  Claim C1 as stated fails. The dashboard item names no role, so nothing grants it to
  a trainee, and it is shown; the admins item, granted to \<open>super_admin\<close> only, is shown
  when no role is known; and the call-log item names no role either, while the page
  offers its export buttons to a trainee.
\<close>

theorem nav_fail_open_counterexample:
  "allowedRoles \<lparr>to = ''/dashboard'', label = ''Dashboard'', allowedRoles = None\<rparr> = None
   \<and> navItemShown (Some exTrainee)
        \<lparr>to = ''/dashboard'', label = ''Dashboard'', allowedRoles = None\<rparr>
   \<and> trainee \<notin> set [super_admin]
   \<and> navItemShown None \<lparr>to = ''/admins'', label = ''Admins'', allowedRoles = Some [super_admin]\<rparr>
   \<and> map to (adminNavItems None) = [''/branches'', ''/users'', ''/admins'', ''/login-activities'']
   \<and> map to (navItems (Some exTrainee)) = [''/dashboard'', ''/call-logs'']
   \<and> exportButtonsShown (Some exTrainee)"
  by (simp add: navItemShown_def navItems_def allNavItems_def adminNavItems_def
      allAdminNavItems_def exportButtonsShown_def exTrainee_def)

text \<open>
  Claim C2, as the code has it. For a trainee the users page is visible: App Users is
  the one administration item of the sidebar, the route \<open>/users\<close> renders the page for
  every signed-in admin, and the page is read-only (\<open>canEdit\<close> is false, in both
  versions of the page).
\<close>

theorem trainee_users_visible:
  assumes "admin_role a = trainee"
  shows "map to (adminNavItems (Some a)) = [''/users'']
    \<and> usersRoute True = Render ''Users''
    \<and> \<not> usersCanEdit (Some a)
    \<and> \<not> usersCanEditEarlier (Some a)"
  using assms
  by (simp add: navItemShown_def adminNavItems_def allAdminNavItems_def usersRoute_def
      ProtectedRoute_def usersCanEdit_def usersCanEditEarlier_def roleIs_def)

text \<open>
  The statement of C2 at the trainee assigned to the users 42 and 43.
\<close>

theorem trainee_users_visible_witness:
  "admin_role exTrainee = trainee
   \<and> map to (adminNavItems (Some exTrainee)) = [''/users'']
   \<and> usersRoute True = Render ''Users''
   \<and> \<not> usersCanEdit (Some exTrainee)
   \<and> \<not> usersCanEditEarlier (Some exTrainee)"
proof -
  have h: "admin_role exTrainee = trainee" by (simp add: exTrainee_def)
  show ?thesis using h trainee_users_visible [OF h] by simp
qed

text \<open>
  Claim C2 as stated fails: the users item is among the items shown to a trainee and
  the route renders the users page.
\<close>

theorem trainee_users_counterexample:
  "admin_role exTrainee = trainee
   \<and> ''/users'' \<in> set (map to (adminNavItems (Some exTrainee)))
   \<and> usersRoute True = Render ''Users''"
  by (simp add: navItemShown_def adminNavItems_def allAdminNavItems_def usersRoute_def
      ProtectedRoute_def exTrainee_def)

text \<open>
  Claim C5. Deleting one's own admin account is refused whatever the role and whatever
  the answer to the confirmation: \<open>handleDelete\<close> shows the error toast and never
  reaches the delete mutation, and the card of one's own account has no delete button.
\<close>

theorem self_delete_refused:
  "handleDelete (Some a) (admin_id a) confirmed = ToastError ''You cannot delete your own account''
   \<and> handleDelete (Some a) (admin_id a) confirmed \<noteq> DeleteMutate target
   \<and> \<not> deleteButtonShown (Some a) (admin_id a)"
  by (simp add: handleDelete_def deleteButtonShown_def)

text \<open>
  The statement of C5 at the super admin with id 1, who can delete the admin 2.
\<close>

theorem self_delete_refused_witness:
  "handleDelete (Some exSuperAdmin) 1 True = ToastError ''You cannot delete your own account''
   \<and> handleDelete (Some exSuperAdmin) 1 True \<noteq> DeleteMutate 1
   \<and> \<not> deleteButtonShown (Some exSuperAdmin) 1
   \<and> handleDelete (Some exSuperAdmin) 2 True = DeleteMutate 2"
  using self_delete_refused [of exSuperAdmin True 1]
  by (simp add: exSuperAdmin_def handleDelete_def)

section \<open>Filter state\<close>

text \<open>
  Claim C3, as the code has it. For a manager whose \<open>branch_id\<close> is set and not
  zero, the applied \<open>branch_id\<close> is the manager's own after every sequence of events
  (staging another branch and applying included) and after \<open>clearFilters\<close>. For a
  trainee with at least one assigned user, the applied \<open>user_id\<close> is one of the
  assigned ids after every sequence of events; it is the first assigned id initially,
  after \<open>clearFilters\<close>, and after an accepted \<open>applyFilters\<close> with no user staged.
  \<open>clearFilters\<close> restores the initial state.
\<close>

theorem forced_scope_kept:
  "(admin_role a = manager \<and> branch_id a = Some b \<and> b \<noteq> 0 \<longrightarrow>
      getProp (filters (run (Some a) evs)) BranchId = Num b
      \<and> getProp (filters (clearFilters (Some a) s)) BranchId = Num b)
   \<and> (admin_role a = trainee \<and> assigned_user_ids a = Some ids \<and> ids \<noteq> [] \<longrightarrow>
      (\<exists>u\<in>set ids. getProp (filters (run (Some a) evs)) UserId = Num u)
      \<and> getProp (filters (initialState (Some a))) UserId = Num (hd ids)
      \<and> getProp (filters (clearFilters (Some a) s)) UserId = Num (hd ids)
      \<and> (\<not> truthy (getProp (pendingFilters s) UserId) \<and> fst (applyFilters (Some a) s) = None \<longrightarrow>
           getProp (filters (snd (applyFilters (Some a) s))) UserId = Num (hd ids)))
   \<and> clearFilters (Some a) s = initialState (Some a)"
proof (intro conjI impI)
  assume m: "admin_role a = manager \<and> branch_id a = Some b \<and> b \<noteq> 0"
  then have base: "getInitialFilters (Some a) BranchId = Some (Num b)"
    by (simp add: getInitialFilters_manager)
  then have "filters (initialState (Some a)) BranchId = Some (Num b)"
    by (simp add: initialState_def)
  with m have "filters (run (Some a) evs) BranchId = Some (Num b)"
    unfolding run_def by (intro run_keeps_branch) simp_all
  then show "getProp (filters (run (Some a) evs)) BranchId = Num b"
    by (simp add: getProp_def)
  show "getProp (filters (clearFilters (Some a) s)) BranchId = Num b"
    using base by (simp add: clearFilters_def getProp_def)
next
  assume t: "admin_role a = trainee \<and> assigned_user_ids a = Some ids \<and> ids \<noteq> []"
  then have base: "getInitialFilters (Some a) UserId = Some (Num (hd ids))"
    by (simp add: getInitialFilters_trainee)
  from t have "hd ids \<in> set ids" by simp
  with base have "\<exists>u\<in>set ids. filters (initialState (Some a)) UserId = Some (Num u)"
    by (auto simp: initialState_def)
  with t have "\<exists>u\<in>set ids. filters (run (Some a) evs) UserId = Some (Num u)"
    unfolding run_def by (intro run_keeps_user) simp_all
  then show "\<exists>u\<in>set ids. getProp (filters (run (Some a) evs)) UserId = Num u"
    by (auto simp: getProp_def)
  show "getProp (filters (initialState (Some a))) UserId = Num (hd ids)"
    using base by (simp add: initialState_def getProp_def)
  show "getProp (filters (clearFilters (Some a) s)) UserId = Num (hd ids)"
    using base by (simp add: clearFilters_def getProp_def)
  assume "\<not> truthy (getProp (pendingFilters s) UserId) \<and> fst (applyFilters (Some a) s) = None"
  with t show "getProp (filters (snd (applyFilters (Some a) s))) UserId = Num (hd ids)"
    by (simp add: applyFilters_default_user)
next
  show "clearFilters (Some a) s = initialState (Some a)"
    by (simp add: clearFilters_def initialState_def)
qed

text \<open>
  The statement of C3 at the manager of branch 7, who stages branch 9 and applies,
  and at the trainee assigned to 42 and 43, who stages user 43 and applies.
\<close>

theorem forced_scope_kept_witness:
  "admin_role exManager = manager \<and> branch_id exManager = Some 7 \<and> (7::int) \<noteq> 0
   \<and> getProp (filters (run (Some exManager) [FilterChange BranchId (Num 9), ApplyFilters])) BranchId
       = Num 7
   \<and> getProp (filters (clearFilters (Some exManager) (initialState None))) BranchId = Num 7
   \<and> admin_role exTrainee = trainee \<and> assigned_user_ids exTrainee = Some [42, 43]
   \<and> [42, 43 :: int] \<noteq> []
   \<and> (\<exists>u\<in>set [42, 43].
        getProp (filters (run (Some exTrainee) [FilterChange UserId (Num 43), ApplyFilters])) UserId
          = Num u)
   \<and> getProp (filters (clearFilters (Some exTrainee) (initialState None))) UserId = Num 42
   \<and> \<not> truthy (getProp (pendingFilters (initialState None)) UserId)
   \<and> fst (applyFilters (Some exTrainee) (initialState None)) = None
   \<and> getProp (filters (snd (applyFilters (Some exTrainee) (initialState None)))) UserId = Num 42"
proof -
  have m: "admin_role exManager = manager \<and> branch_id exManager = Some 7 \<and> (7::int) \<noteq> 0"
    by (simp add: exManager_def)
  have t: "admin_role exTrainee = trainee \<and> assigned_user_ids exTrainee = Some [42, 43]
      \<and> [42, 43 :: int] \<noteq> []"
    by (simp add: exTrainee_def)
  have p: "\<not> truthy (getProp (pendingFilters (initialState None)) UserId)
      \<and> fst (applyFilters (Some exTrainee) (initialState None)) = None"
    by (simp add: initialState_def getProp_def applyFilters_def Let_def exTrainee_def
        roleIs_def availableUserIds_def)
  show ?thesis
    using m t p
      forced_scope_kept [of exManager 7 "[FilterChange BranchId (Num 9), ApplyFilters]"
        "initialState None" "[]"]
      forced_scope_kept [of exTrainee 0 "[FilterChange UserId (Num 43), ApplyFilters]"
        "initialState None" "[42, 43]"]
    by (simp add: clearFilters_def initialState_def getInitialFilters_def getProp_def
        exManager_def exTrainee_def firstId_def)
qed

text \<open>
  Claim C3 as stated fails. Nothing is forced for a manager without a branch: staging
  branch 9 and applying makes 9 the applied branch. Nothing is forced for a trainee
  without assigned users: staging user 5 and applying makes 5 the applied user.
\<close>

theorem forced_scope_counterexample:
  "admin_role exManagerNoBranch = manager \<and> branch_id exManagerNoBranch = None
   \<and> getProp (filters (run (Some exManagerNoBranch)
        [FilterChange BranchId (Num 9), ApplyFilters])) BranchId = Num 9
   \<and> admin_role exTraineeNoUsers = trainee \<and> assigned_user_ids exTraineeNoUsers = Some []
   \<and> getProp (filters (run (Some exTraineeNoUsers)
        [FilterChange UserId (Num 5), ApplyFilters])) UserId = Num 5"
  by (simp add: run_def initialState_def getInitialFilters_def exManagerNoBranch_def
      exTraineeNoUsers_def handleFilterChange_def applyFilters_def getProp_def jsOr_def
      roleIs_def availableUserIds_def)

text \<open>
  Claim C4. When a time is staged and no date is, \<open>applyFilters\<close> gives up with the
  message that names the rule, and the applied filters, the pending filters and the
  search text are all as they were.
\<close>

theorem time_without_date_rejected:
  assumes "truthy (getProp (pendingFilters s) TimeFrom) \<or> truthy (getProp (pendingFilters s) TimeTo)"
    and "\<not> truthy (getProp (pendingFilters s) DateFrom)"
    and "\<not> truthy (getProp (pendingFilters s) DateTo)"
  shows "applyFilters admin s = (Some ''Please select a date when using time filters'', s)"
  using assms by (simp add: applyFilters_def)

text \<open>
  The statement of C4 on page 2 of 3, with the time 10:00 staged and no date.
\<close>

theorem time_without_date_rejected_witness:
  "truthy (getProp (pendingFilters
      (run (Some exSuperAdmin) [Next (exData 3), FilterChange TimeFrom (Str ''10:00'')])) TimeFrom)
   \<and> \<not> truthy (getProp (pendingFilters
      (run (Some exSuperAdmin) [Next (exData 3), FilterChange TimeFrom (Str ''10:00'')])) DateFrom)
   \<and> \<not> truthy (getProp (pendingFilters
      (run (Some exSuperAdmin) [Next (exData 3), FilterChange TimeFrom (Str ''10:00'')])) DateTo)
   \<and> applyFilters (Some exSuperAdmin)
        (run (Some exSuperAdmin) [Next (exData 3), FilterChange TimeFrom (Str ''10:00'')])
      = (Some ''Please select a date when using time filters'',
         run (Some exSuperAdmin) [Next (exData 3), FilterChange TimeFrom (Str ''10:00'')])"
proof -
  let ?s = "run (Some exSuperAdmin) [Next (exData 3), FilterChange TimeFrom (Str ''10:00'')]"
  have p: "pendingFilters ?s = [TimeFrom \<mapsto> Str ''10:00'']"
    by (simp add: run_def initialState_def handleFilterChange_def nextClick_def nextRequest_def nextDisabled_def jsOr_def)
  have h1: "truthy (getProp (pendingFilters ?s) TimeFrom) \<or> truthy (getProp (pendingFilters ?s) TimeTo)"
    by (simp add: p getProp_def)
  have h2: "\<not> truthy (getProp (pendingFilters ?s) DateFrom)"
    by (simp add: p getProp_def)
  have h3: "\<not> truthy (getProp (pendingFilters ?s) DateTo)"
    by (simp add: p getProp_def)
  show ?thesis
    using time_without_date_rejected [OF h1 h2 h3, of "Some exSuperAdmin"] h2 h3
    by (simp add: p getProp_def)
qed

text \<open>
  Claim C6, as the code has it. A numeric input whose text is empty, or parses to
  \<open>NaN\<close> or to 0, is staged as \<open>undefined\<close>; any other number, a negative one too, is
  staged as it is. After an accepted \<open>applyFilters\<close> the applied value of
  \<open>duration_min\<close> or \<open>duration_max\<close> (and, for a super admin, of \<open>branch_id\<close> or
  \<open>user_id\<close>) is the staged one.
\<close>

theorem falsy_number_absent_negative_kept:
  assumes "applyFilters admin (numericChange key raw parsed s) = (None, s')"
    and "key \<in> {DurationMin, DurationMax, BranchId, UserId}"
    and "key \<in> {DurationMin, DurationMax} \<or> roleIs admin super_admin"
  shows "getProp (pendingFilters (numericChange key raw parsed s)) key
      = (if raw \<noteq> [] \<and> truthy parsed then parsed else Undefined)
    \<and> getProp (filters s') key = (if raw \<noteq> [] \<and> truthy parsed then parsed else Undefined)
    \<and> (raw = [] \<or> parsed = NaN \<or> parsed = Num 0 \<longrightarrow> getProp (filters s') key = Undefined)
    \<and> (raw \<noteq> [] \<and> n < 0 \<and> parsed = Num n \<longrightarrow> getProp (filters s') key = Num n)"
proof -
  let ?s0 = "numericChange key raw parsed s"
  let ?v = "if raw \<noteq> [] \<and> truthy parsed then parsed else Undefined"
  have staged: "pendingFilters ?s0 key = Some ?v"
    by (simp add: numericChange_def handleFilterChange_def jsOr_def)
  have kept: "pendingFilters s' key = pendingFilters ?s0 key"
  proof (cases "key \<in> {DurationMin, DurationMax}")
    case True
    then have "key \<noteq> UserId" "key \<noteq> BranchId" by auto
    then show ?thesis by (rule applyFilters_accepted(3) [OF assms(1)])
  next
    case False
    with assms(3) have "roleIs admin super_admin" by simp
    then show ?thesis by (simp add: applyFilters_accepted(4) [OF assms(1)])
  qed
  have "key \<noteq> Page" using assms(2) by auto
  then have "filters s' key = (filters ?s0 ++ pendingFilters s') key"
    by (simp add: applyFilters_accepted(1) [OF assms(1)])
  also have "\<dots> = Some ?v"
    using kept staged by (simp add: map_add_def)
  finally have applied: "getProp (filters s') key = ?v"
    by (simp add: getProp_def)
  have stage: "getProp (pendingFilters ?s0) key = ?v"
    using staged by (simp add: getProp_def)
  show ?thesis using stage applied by auto
qed

text \<open>
  The statement of C6 at a super admin who types a text that parses to \<open>NaN\<close>.
\<close>

theorem falsy_number_absent_negative_kept_witness:
  "applyFilters (Some exSuperAdmin)
      (numericChange DurationMin ''abc'' NaN (initialState (Some exSuperAdmin)))
     = (None, \<lparr>filters = [Page \<mapsto> Num 1, PerPage \<mapsto> Num 20, DurationMin \<mapsto> Undefined],
               pendingFilters = [DurationMin \<mapsto> Undefined], search = ''''\<rparr>)
   \<and> DurationMin \<in> {DurationMin, DurationMax, BranchId, UserId}
   \<and> roleIs (Some exSuperAdmin) super_admin
   \<and> getProp [Page \<mapsto> Num 1, PerPage \<mapsto> Num 20, DurationMin \<mapsto> Undefined] DurationMin = Undefined"
proof -
  let ?s' = "\<lparr>filters = [Page \<mapsto> Num 1, PerPage \<mapsto> Num 20, DurationMin \<mapsto> Undefined],
               pendingFilters = [DurationMin \<mapsto> Undefined], search = ''''\<rparr>"
  have h1: "applyFilters (Some exSuperAdmin)
      (numericChange DurationMin ''abc'' NaN (initialState (Some exSuperAdmin))) = (None, ?s')"
    by (simp add: applyFilters_def numericChange_def handleFilterChange_def initialState_def
        getInitialFilters_def exSuperAdmin_def getProp_def jsOr_def roleIs_def
        availableUserIds_def fun_eq_iff Let_def)
  have h2: "DurationMin \<in> {DurationMin, DurationMax, BranchId, UserId}" by simp
  have h3: "DurationMin \<in> {DurationMin, DurationMax} \<or> roleIs (Some exSuperAdmin) super_admin"
    by simp
  have h4: "roleIs (Some exSuperAdmin) super_admin" by (simp add: roleIs_def exSuperAdmin_def)
  show ?thesis
    using h1 h2 h4 falsy_number_absent_negative_kept [OF h1 h2 h3, of 0]
    by simp
qed

text \<open>
  Claim C6 as stated fails: staging \<open>duration_min = -5\<close> and applying leaves
  \<open>duration_min = -5\<close> applied.
\<close>

theorem negative_duration_counterexample:
  "getProp (filters (run (Some exSuperAdmin)
      [FilterChange DurationMin (Num (- 5)), ApplyFilters])) DurationMin = Num (- 5)
   \<and> getProp (filters (snd (applyFilters (Some exSuperAdmin)
        (numericChange DurationMin ''-5'' (Num (- 5)) (initialState (Some exSuperAdmin))))))
       DurationMin = Num (- 5)"
  by (simp add: run_def initialState_def getInitialFilters_def exSuperAdmin_def numericChange_def
      handleFilterChange_def applyFilters_def getProp_def jsOr_def roleIs_def availableUserIds_def
      Let_def)



text \<open>
  Claim C8, as the code has it. The applied page is 1 after every \<open>handleSort\<close>,
  after every accepted \<open>applyFilters\<close>, and after every URL preset that carries a call
  type or a period. A refused \<open>applyFilters\<close> leaves the state, and so the page, as it
  was.
\<close>

theorem page_reset_to_one:
  "getProp (filters (handleSort column s)) Page = Num 1
   \<and> (fst (applyFilters admin s) = None \<longrightarrow>
        getProp (filters (snd (applyFilters admin s))) Page = Num 1)
   \<and> (fst (applyFilters admin s) \<noteq> None \<longrightarrow> snd (applyFilters admin s) = s)
   \<and> (present callType \<or> present period \<longrightarrow>
        getProp (filters (urlPresetEffect admin clock callType period s)) Page = Num 1)"
proof (intro conjI impI)
  show "snd (applyFilters admin s) = s" if "fst (applyFilters admin s) \<noteq> None"
    using that by (auto simp: applyFilters_def Let_def split: if_splits)
  show "getProp (filters (handleSort column s)) Page = Num 1"
    by (simp add: handleSort_def getProp_def Let_def)
  show "getProp (filters (snd (applyFilters admin s))) Page = Num 1"
    if "fst (applyFilters admin s) = None"
    using that by (auto simp: applyFilters_def Let_def getProp_def split: if_splits)
  have base: "getInitialFilters admin Page = Some (Num 1)"
    by (simp add: getInitialFilters_def Let_def split: option.splits)
  show "getProp (filters (urlPresetEffect admin clock callType period s)) Page = Num 1"
    if "present callType \<or> present period"
    using that base
    by (auto simp: urlPresetEffect_def Let_def getProp_def present_def split: option.splits)
qed

text \<open>
  The statement of C8 on page 2 of 3, for a sort, an apply and a preset.
\<close>

theorem page_reset_to_one_witness:
  "getProp (filters (run (Some exSuperAdmin) [Next (exData 3)])) Page = Num 2
   \<and> getProp (filters (handleSort ''call_type'' (run (Some exSuperAdmin) [Next (exData 3)]))) Page
       = Num 1
   \<and> fst (applyFilters (Some exSuperAdmin) (run (Some exSuperAdmin) [Next (exData 3)])) = None
   \<and> getProp (filters (snd (applyFilters (Some exSuperAdmin)
         (run (Some exSuperAdmin) [Next (exData 3)])))) Page = Num 1
   \<and> present (Some ''missed'')
   \<and> getProp (filters (urlPresetEffect (Some exSuperAdmin) exClock (Some ''missed'') None
         (run (Some exSuperAdmin) [Next (exData 3)]))) Page = Num 1"
proof -
  let ?s = "run (Some exSuperAdmin) [Next (exData 3)]"
  have s: "?s = \<lparr>filters = [Page \<mapsto> Num 2, PerPage \<mapsto> Num 20], pendingFilters = Map.empty,
      search = ''''\<rparr>"
    by (simp add: run_def initialState_def getInitialFilters_def exSuperAdmin_def exData_def
        nextClick_def nextRequest_def nextDisabled_def pagerRendered_def getProp_def jsOr_def fun_eq_iff)
  have h0: "getProp (filters ?s) Page = Num 2"
    by (simp add: s getProp_def)
  have h1: "fst (applyFilters (Some exSuperAdmin) ?s) = None"
    unfolding s
    by (simp add: applyFilters_def getProp_def roleIs_def exSuperAdmin_def availableUserIds_def
        Let_def)
  have h2: "present (Some ''missed'')"
    by (simp add: present_def)
  show ?thesis
    using h0 h1 h2
      page_reset_to_one [of "''call_type''" ?s "Some exSuperAdmin" "Some ''missed''" None exClock]
    by simp
qed

text \<open>
  Claim C8 as stated fails: on page 2, an \<open>applyFilters\<close> that is refused (a time
  without a date) leaves the applied page at 2.
\<close>

theorem failed_apply_keeps_page_counterexample:
  "fst (applyFilters (Some exSuperAdmin)
      (run (Some exSuperAdmin) [Next (exData 3), FilterChange TimeFrom (Str ''10:00'')]))
     = Some ''Please select a date when using time filters''
   \<and> getProp (filters (run (Some exSuperAdmin)
        [Next (exData 3), FilterChange TimeFrom (Str ''10:00''), ApplyFilters])) Page = Num 2"
  by (simp add: run_def initialState_def getInitialFilters_def exSuperAdmin_def exData_def
      nextClick_def nextRequest_def nextDisabled_def pagerRendered_def handleFilterChange_def applyFilters_def getProp_def jsOr_def)

text \<open>
  Claim C9, as the code has it. A URL that carries a call type or a period sets the
  applied filters to the initial filters of the admin overridden by the keys of the
  preset, whatever was applied before. Applying the preset again changes nothing when
  it resolves to the same keys; the dates of a period are read from the clock at each
  application. A URL that carries neither changes nothing.
\<close>

theorem url_preset_base_anchored:
  "(present callType \<or> present period \<longrightarrow>
      filters (urlPresetEffect admin clock callType period s)
        = getInitialFilters admin ++ presetFilters clock callType period
      \<and> filters (urlPresetEffect admin clock callType period s)
        = filters (urlPresetEffect admin clock callType period s0)
      \<and> (presetFilters clock' callType period = presetFilters clock callType period \<longrightarrow>
           urlPresetEffect admin clock' callType period
             (urlPresetEffect admin clock callType period s)
           = urlPresetEffect admin clock callType period s))
   \<and> (\<not> present callType \<and> \<not> present period \<longrightarrow>
        urlPresetEffect admin clock callType period s = s)"
proof (intro conjI impI)
  assume pr: "present callType \<or> present period"
  show "filters (urlPresetEffect admin clock callType period s)
      = getInitialFilters admin ++ presetFilters clock callType period"
    by (simp add: urlPresetEffect_present [OF pr])
  show "filters (urlPresetEffect admin clock callType period s)
      = filters (urlPresetEffect admin clock callType period s0)"
    by (simp add: urlPresetEffect_present [OF pr])
  assume "presetFilters clock' callType period = presetFilters clock callType period"
  then show "urlPresetEffect admin clock' callType period
       (urlPresetEffect admin clock callType period s)
      = urlPresetEffect admin clock callType period s"
    by (simp add: urlPresetEffect_present [OF pr])
next
  assume "\<not> present callType \<and> \<not> present period"
  then show "urlPresetEffect admin clock callType period s = s"
    by (simp add: urlPresetEffect_def)
qed

text \<open>
  The statement of C9 at a manager of branch 7 who has searched for 555 and moved to
  page 2: the weekly preset for missed calls drops the search and the page, and the
  same preset on the next day of the same week changes nothing more.
\<close>

theorem url_preset_base_anchored_witness:
  "present (Some ''missed'')
   \<and> filters (urlPresetEffect (Some exManager) exClock (Some ''missed'') (Some ''weekly'')
        (run (Some exManager) [SetSearch ''555'', SubmitSearch, Next (exData 3)]))
      = [Page \<mapsto> Num 1, PerPage \<mapsto> Num 20, BranchId \<mapsto> Num 7, CallType \<mapsto> Str ''missed'',
         DateFrom \<mapsto> Str ''2024-03-03'', DateTo \<mapsto> Str ''2024-03-06'']
   \<and> getProp (filters (run (Some exManager) [SetSearch ''555'', SubmitSearch, Next (exData 3)]))
        Search = Str ''555''
   \<and> presetFilters exClock (Some ''missed'') None = presetFilters exClockNextDay (Some ''missed'') None
   \<and> urlPresetEffect (Some exManager) exClockNextDay (Some ''missed'') None
        (urlPresetEffect (Some exManager) exClock (Some ''missed'') None (initialState None))
      = urlPresetEffect (Some exManager) exClock (Some ''missed'') None (initialState None)"
proof -
  have h: "present (Some ''missed'') \<or> present (Some ''weekly'')"
    by (simp add: present_def)
  have h': "present (Some ''missed'') \<or> present None"
    by (simp add: present_def)
  have d1: "formatDate (weekStart exClock) = ''2024-03-03''"
    by (simp add: formatDate_def exClock_def String_nat.simps padStart2_def)
  have d2: "formatDate (today exClock) = ''2024-03-06''"
    by (simp add: formatDate_def exClock_def String_nat.simps padStart2_def)
  have rhs: "getInitialFilters (Some exManager) ++ presetFilters exClock (Some ''missed'') (Some ''weekly'')
      = [Page \<mapsto> Num 1, PerPage \<mapsto> Num 20, BranchId \<mapsto> Num 7, CallType \<mapsto> Str ''missed'',
         DateFrom \<mapsto> Str ''2024-03-03'', DateTo \<mapsto> Str ''2024-03-06'']"
    by (simp add: getInitialFilters_def exManager_def presetFilters_def getDateRangeForPeriod_def
        getProp_def d1 d2)
  have srch: "getProp (filters (run (Some exManager) [SetSearch ''555'', SubmitSearch, Next (exData 3)]))
        Search = Str ''555''"
    by (simp add: run_def initialState_def setSearch_def handleSearch_def nextClick_def
        nextRequest_def nextDisabled_def getProp_def)
  have same: "presetFilters exClockNextDay (Some ''missed'') None
      = presetFilters exClock (Some ''missed'') None"
    by (simp add: presetFilters_def)
  show ?thesis
    using h h' rhs srch same
      url_preset_base_anchored [of "Some ''missed''" "Some ''weekly''" "Some exManager" exClock
        "run (Some exManager) [SetSearch ''555'', SubmitSearch, Next (exData 3)]"]
      url_preset_base_anchored [of "Some ''missed''" None "Some exManager" exClock
        "initialState None" "initialState None" exClockNextDay]
    by (simp add: present_def)
qed

text \<open>
  Claim C9 as stated fails. A URL with neither key is dropped whole: for the manager on
  page 2 with the search 555 the applied filters keep the page and the search, where
  the initial filters have page 1 and no search. And the daily preset applied on two
  days in a row sets two different dates.
\<close>

theorem url_preset_counterexample:
  "getProp (filters (urlPresetEffect (Some exManager) exClock None None
      (run (Some exManager) [SetSearch ''555'', SubmitSearch, Next (exData 3)]))) Page = Num 2
   \<and> getProp (filters (urlPresetEffect (Some exManager) exClock None None
      (run (Some exManager) [SetSearch ''555'', SubmitSearch, Next (exData 3)]))) Search = Str ''555''
   \<and> getProp (getInitialFilters (Some exManager) ++ presetFilters exClock None None) Page = Num 1
   \<and> getProp (getInitialFilters (Some exManager) ++ presetFilters exClock None None) Search
       = Undefined
   \<and> getProp (filters (urlPresetEffect (Some exManager) exClock None (Some ''daily'')
        (initialState (Some exManager)))) DateFrom = Str ''2024-03-06''
   \<and> getProp (filters (urlPresetEffect (Some exManager) exClockNextDay None (Some ''daily'')
        (urlPresetEffect (Some exManager) exClock None (Some ''daily'')
          (initialState (Some exManager))))) DateFrom = Str ''2024-03-07''"
proof -
  have d1: "formatDate (today exClock) = ''2024-03-06''"
    by (simp add: formatDate_def exClock_def String_nat.simps padStart2_def)
  have d2: "formatDate (today exClockNextDay) = ''2024-03-07''"
    by (simp add: formatDate_def exClockNextDay_def String_nat.simps padStart2_def)
  have empty: "urlPresetEffect (Some exManager) exClock None None
      (run (Some exManager) [SetSearch ''555'', SubmitSearch, Next (exData 3)])
      = run (Some exManager) [SetSearch ''555'', SubmitSearch, Next (exData 3)]"
    by (simp add: urlPresetEffect_def present_def)
  have kept: "getProp (filters (run (Some exManager) [SetSearch ''555'', SubmitSearch,
      Next (exData 3)])) Page = Num 2
    \<and> getProp (filters (run (Some exManager) [SetSearch ''555'', SubmitSearch,
      Next (exData 3)])) Search = Str ''555''"
    by (simp add: run_def initialState_def setSearch_def handleSearch_def nextClick_def
        nextRequest_def nextDisabled_def pagerRendered_def exData_def getProp_def jsOr_def)
  have base: "getProp (getInitialFilters (Some exManager) ++ presetFilters exClock None None) Page
      = Num 1
    \<and> getProp (getInitialFilters (Some exManager) ++ presetFilters exClock None None) Search
      = Undefined"
    by (simp add: getInitialFilters_def exManager_def presetFilters_def getProp_def)
  have daily: "getProp (filters (urlPresetEffect (Some exManager) exClock None (Some ''daily'')
        (initialState (Some exManager)))) DateFrom = Str ''2024-03-06''
    \<and> getProp (filters (urlPresetEffect (Some exManager) exClockNextDay None (Some ''daily'')
        (urlPresetEffect (Some exManager) exClock None (Some ''daily'')
          (initialState (Some exManager))))) DateFrom = Str ''2024-03-07''"
    by (simp add: urlPresetEffect_def present_def Let_def getDateRangeForPeriod_def getProp_def
        d1 d2)
  show ?thesis using empty kept base daily by simp
qed

section \<open>Recording controls\<close>

text \<open>
  Claim C10, as the code has it. In a table row the play button is shown if and only
  if the call is neither missed nor rejected, its duration is not zero and it has at
  least one recording; the download button needs, in addition, a super admin; the text
  "No recording" is shown otherwise. The detail dialog lists the players under the same
  condition on the loaded recordings, each with a download button for a super admin
  only, and shows the empty state otherwise.
\<close>

theorem recording_controls:
  "playButton (recordingCell admin log)
     = (call_type log \<noteq> ''missed'' \<and> call_type log \<noteq> ''rejected'' \<and> call_duration log \<noteq> 0
        \<and> (case recordings_count log of None \<Rightarrow> False | Some c \<Rightarrow> c > 0))
   \<and> downloadButton (recordingCell admin log)
     = (playButton (recordingCell admin log) \<and> roleIs admin super_admin)
   \<and> noRecordingText (recordingCell admin log) = (\<not> playButton (recordingCell admin log))
   \<and> players (recordingSection admin log)
     = (call_type log \<noteq> ''missed'' \<and> call_type log \<noteq> ''rejected'' \<and> call_duration log \<noteq> 0
        \<and> (case recordings log of None \<Rightarrow> False | Some k \<Rightarrow> k > 0))
   \<and> playerDownload (recordingSection admin log)
     = (players (recordingSection admin log) \<and> roleIs admin super_admin)
   \<and> emptyState (recordingSection admin log) = (\<not> players (recordingSection admin log))"
  by (auto simp: recordingCell_def recordingSection_def shouldShowRecordings_def
      canManageCallLogs_def Let_def split: option.splits)

text \<open>
  The statement of C10 at a super admin and an incoming call of 30 seconds with one
  recording.
\<close>

theorem recording_controls_witness:
  "playButton (recordingCell (Some exSuperAdmin) exLog)
   \<and> downloadButton (recordingCell (Some exSuperAdmin) exLog)
   \<and> \<not> noRecordingText (recordingCell (Some exSuperAdmin) exLog)
   \<and> players (recordingSection (Some exSuperAdmin) exLog)
   \<and> playerDownload (recordingSection (Some exSuperAdmin) exLog)
   \<and> \<not> emptyState (recordingSection (Some exSuperAdmin) exLog)"
  using recording_controls [of "Some exSuperAdmin" exLog]
  by (simp add: exLog_def exSuperAdmin_def roleIs_def)

text \<open>
  Claim C10 as stated fails: for a manager the same call has its play button and its
  player, and no download button.
\<close>

theorem download_role_gated_counterexample:
  "shouldShowRecordings (call_type exLog) (call_duration exLog) 1
   \<and> recordings_count exLog = Some 1
   \<and> playButton (recordingCell (Some exManager) exLog)
   \<and> \<not> downloadButton (recordingCell (Some exManager) exLog)
   \<and> players (recordingSection (Some exManager) exLog)
   \<and> \<not> playerDownload (recordingSection (Some exManager) exLog)"
  by (simp add: recordingCell_def recordingSection_def shouldShowRecordings_def
      canManageCallLogs_def roleIs_def exLog_def exManager_def)

end
